theory Spec2Isabelle
  imports Main
begin

section \<open>JavaScript values used by index.mjs\<close>

text \<open>
  Strings are character lists. Every string the handlers build is made by concatenation,
  \<open>startsWith\<close>, \<open>join\<close> and key lookup, none of which looks inside a character.

  What a handler or the module can throw: the \<open>SyntaxError\<close> of the regular expression
  constructor and the \<open>TypeError\<close> of a call of a method that is not there. \<open>Unmodelled\<close>
  is no error of the program: it is what the model of the constructor below answers for a
  pattern it does not cover.
\<close>

datatype js_error = SyntaxError | TypeError | Unmodelled

text \<open>\<open>String.prototype.startsWith\<close>.\<close>

definition startsWith :: "string \<Rightarrow> string \<Rightarrow> bool" where
  "startsWith s p = (take (length p) s = p)"

text \<open>\<open>Array.prototype.join\<close> on an array of strings.\<close>

fun join :: "string \<Rightarrow> string list \<Rightarrow> string" where
  "join sep [] = []"
| "join sep [x] = x"
| "join sep (x # y # ys) = x @ sep @ join sep (y # ys)"

text \<open>\<open>a || b\<close> on strings: the empty string is the only falsy one.\<close>

definition js_or :: "string \<Rightarrow> string \<Rightarrow> string" where
  "js_or a b = (if a = [] then b else a)"

section \<open>The schema graph of graphql-js, as far as index.mjs reads it\<close>

text \<open>
  A type reference of a field (\<open>field.type\<close>) is a named type, possibly wrapped in list
  and non-null markers; \<open>toString\<close> is its rendering by graphql-js.
\<close>

datatype type_ref = Named string | ListOf type_ref | NonNull type_ref

fun toString :: "type_ref \<Rightarrow> string" where
  "toString (Named n) = n"
| "toString (ListOf t) = ''['' @ toString t @ '']''"
| "toString (NonNull t) = toString t @ ''!''"

text \<open>
  A field definition. The syntax node \<open>astNode\<close> is of a type \<open>'a\<close> that the model leaves
  open: index.mjs only hands it to the printer of graphql-js.
\<close>

record 'a gql_field =
  ftype :: type_ref
  fastNode :: "'a option"

text \<open>
  The classes of named types; \<open>class_name\<close> is \<open>type.constructor.name\<close>. The classes with
  a \<open>getFields\<close> method are the object, interface and input object types.
\<close>

datatype gql_class =
  GraphQLScalarType | GraphQLObjectType | GraphQLInterfaceType
  | GraphQLUnionType | GraphQLEnumType | GraphQLInputObjectType

fun class_name :: "gql_class \<Rightarrow> string" where
  "class_name GraphQLScalarType = ''GraphQLScalarType''"
| "class_name GraphQLObjectType = ''GraphQLObjectType''"
| "class_name GraphQLInterfaceType = ''GraphQLInterfaceType''"
| "class_name GraphQLUnionType = ''GraphQLUnionType''"
| "class_name GraphQLEnumType = ''GraphQLEnumType''"
| "class_name GraphQLInputObjectType = ''GraphQLInputObjectType''"

fun has_getFields_class :: "gql_class \<Rightarrow> bool" where
  "has_getFields_class GraphQLObjectType = True"
| "has_getFields_class GraphQLInterfaceType = True"
| "has_getFields_class GraphQLInputObjectType = True"
| "has_getFields_class _ = False"

text \<open>
  A named type. \<open>getFields\<close> is the result of the method of that name, an object whose
  keys are the field names in declaration order (no name of the GraphQL grammar is an
  integer index, which would come first), so an association list; it is read only when the
  class has the method. graphql-js builds its maps without a prototype, so a lookup by
  key finds own keys only.
\<close>

record 'a gql_type =
  tclass :: gql_class
  description :: "string option"
  astNode :: "'a option"
  getFields :: "(string \<times> 'a gql_field) list"

definition has_getFields :: "'a gql_type \<Rightarrow> bool" where
  "has_getFields t = has_getFields_class (tclass t)"

text \<open>
  The schema: the three optional root operation types and \<open>getTypeMap()\<close>, again an
  object without prototype whose keys, the type names, are in the order of insertion.
\<close>

record 'a schema =
  getQueryType :: "'a gql_type option"
  getMutationType :: "'a gql_type option"
  getSubscriptionType :: "'a gql_type option"
  getTypeMap :: "(string \<times> 'a gql_type) list"

section \<open>The tool handlers\<close>

text \<open>
  A handler takes the one string argument of its tool (the tools without a parameter
  ignore it) and either returns the text of its payload or throws.
\<close>

type_synonym handler = "string \<Rightarrow> js_error + string"

subsection \<open>Root operation fields (index.mjs 67-168)\<close>

definition list_root_fields :: "(string \<times> 'a gql_field) list \<Rightarrow> handler" where
  "list_root_fields rootFields = (\<lambda>_. Inr (join '', '' (map fst rootFields)))"

definition get_root_field :: "('a \<Rightarrow> string) \<Rightarrow> (string \<times> 'a gql_field) list \<Rightarrow> handler" where
  "get_root_field print rootFields = (\<lambda>fieldName.
     Inr (case map_of rootFields fieldName of
            None \<Rightarrow> ''Field not found or has no definition''
          | Some field \<Rightarrow>
              (case fastNode field of
                 None \<Rightarrow> ''Field not found or has no definition''
               | Some node \<Rightarrow> print node)))"

subsection \<open>Types (index.mjs 170-221)\<close>

definition list_types :: "'a schema \<Rightarrow> handler" where
  "list_types schema = (\<lambda>_.
     Inr (join '', '' (filter (\<lambda>type. \<not> startsWith type ''__'') (map fst (getTypeMap schema)))))"

definition get_type :: "('a \<Rightarrow> string) \<Rightarrow> 'a schema \<Rightarrow> handler" where
  \<open>get_type print schema = (\<lambda>typeName.
     Inr (case map_of (getTypeMap schema) typeName of
            None \<Rightarrow> ''Type "'' @ typeName @ ''" not found''
          | Some type \<Rightarrow>
              (case astNode type of
                 None \<Rightarrow>
                   ''Type: '' @ typeName @ ''\<newline>Description: ''
                   @ (case description type of None \<Rightarrow> ''No description'' | Some d \<Rightarrow> d)
                   @ ''\<newline>Kind: '' @ class_name (tclass type)
               | Some node \<Rightarrow> print node)))\<close>

definition get_type_fields :: "'a schema \<Rightarrow> handler" where
  \<open>get_type_fields schema = (\<lambda>typeName.
     Inr (case map_of (getTypeMap schema) typeName of
            None \<Rightarrow> ''Type "'' @ typeName @ ''" not found''
          | Some type \<Rightarrow>
              if \<not> has_getFields type
              then ''Type "'' @ typeName @ ''" is not an object type with fields''
              else join ''\<newline>''
                     (map (\<lambda>(fieldName, field). fieldName @ '': '' @ toString (ftype field))
                        (getFields type))))\<close>

subsection \<open>The regular expression of search-schema\<close>

text \<open>
  \<open>new RegExp(pattern, "i")\<close> is ECMAScript's, not this repository's. The handler takes the
  constructor as a parameter: it either throws or gives the \<open>test\<close> method of the compiled
  expression (without the \<open>g\<close> and \<open>y\<close> flags \<open>test\<close> keeps no state between calls).

  \<open>RegExp_i\<close> below is that constructor on a fragment of the pattern language: literal
  ASCII characters, \<open>.\<close>, groups \<open>( )\<close>, alternatives \<open>|\<close> and the quantifiers \<open>* + ?\<close>,
  greedy or lazy. A pattern that uses anything else (escapes, classes, anchors, braces,
  group specifiers, characters beyond ASCII) is \<open>Beyond\<close> the fragment and the model
  gives \<open>Unmodelled\<close> for it, which is no value of the program. Capturing and laziness
  do not change whether there is a match, which is all \<open>test\<close> tells. The strings tested
  are names of the schema, which are ASCII.
\<close>

datatype rx = Zero | Eps | Chr char | Dot | Alt rx rx | Seq rx rx | Star rx

text \<open>Canonicalisation under the \<open>i\<close> flag, on ASCII: lower case letters to upper case.\<close>

definition canon :: "char \<Rightarrow> char" where
  "canon c = (case map_of (zip ''abcdefghijklmnopqrstuvwxyz'' ''ABCDEFGHIJKLMNOPQRSTUVWXYZ'') c of
                None \<Rightarrow> c | Some u \<Rightarrow> u)"

definition line_terminator :: "char \<Rightarrow> bool" where
  "line_terminator c = (c = CHR 0x0A \<or> c = CHR 0x0D)"

fun nullable :: "rx \<Rightarrow> bool" where
  "nullable Zero = False"
| "nullable Eps = True"
| "nullable (Chr a) = False"
| "nullable Dot = False"
| "nullable (Alt r s) = (nullable r \<or> nullable s)"
| "nullable (Seq r s) = (nullable r \<and> nullable s)"
| "nullable (Star r) = True"

fun deriv :: "char \<Rightarrow> rx \<Rightarrow> rx" where
  "deriv c Zero = Zero"
| "deriv c Eps = Zero"
| "deriv c (Chr a) = (if canon a = canon c then Eps else Zero)"
| "deriv c Dot = (if line_terminator c then Zero else Eps)"
| "deriv c (Alt r s) = Alt (deriv c r) (deriv c s)"
| "deriv c (Seq r s) =
     (if nullable r then Alt (Seq (deriv c r) s) (deriv c s) else Seq (deriv c r) s)"
| "deriv c (Star r) = Seq (deriv c r) (Star r)"

text \<open>Does the expression match some prefix of the string?\<close>

fun match_here :: "rx \<Rightarrow> string \<Rightarrow> bool" where
  "match_here r [] = nullable r"
| "match_here r (c # cs) = (nullable r \<or> match_here (deriv c r) cs)"

text \<open>\<open>RegExp.prototype.test\<close>: is there a match starting at some index of the string?\<close>

fun RegExp_test :: "rx \<Rightarrow> string \<Rightarrow> bool" where
  "RegExp_test r [] = nullable r"
| "RegExp_test r (c # cs) = (match_here r (c # cs) \<or> RegExp_test r cs)"

text \<open>
  The parser reads the pattern once, left to right. It keeps the alternatives finished so
  far and the terms of the current alternative (both latest first) for the group it is in,
  the same for the enclosing groups, and what the previous token was.
\<close>

datatype parsed = Parsed rx | Malformed | Beyond

datatype prev = AtStart | AfterOpen | AfterAtom | AfterQuantifier | AfterLazy

definition mk_seq :: "rx list \<Rightarrow> rx" where
  "mk_seq terms = foldr Seq terms Eps"

definition mk_alt :: "rx list \<Rightarrow> rx" where
  "mk_alt alts = foldr Alt alts Zero"

definition close_group :: "rx list \<times> rx list \<Rightarrow> rx" where
  "close_group g = mk_alt (rev (mk_seq (rev (snd g)) # fst g))"

definition quantify :: "char \<Rightarrow> rx \<Rightarrow> rx" where
  "quantify q r = (if q = CHR ''*'' then Star r
                   else if q = CHR ''+'' then Seq r (Star r)
                   else Alt r Eps)"

fun parse_go :: "rx list \<times> rx list \<Rightarrow> (rx list \<times> rx list) list \<Rightarrow> prev \<Rightarrow> string \<Rightarrow> parsed" where
  "parse_go g stack p [] = (if stack = [] then Parsed (close_group g) else Malformed)"
| "parse_go g stack p (c # cs) =
     (if c = CHR ''('' then parse_go ([], []) (g # stack) AfterOpen cs
      else if c = CHR '')'' then
        (case stack of
           [] \<Rightarrow> Malformed
         | outer # rest \<Rightarrow> parse_go (fst outer, close_group g # snd outer) rest AfterAtom cs)
      else if c = CHR ''|'' then parse_go (mk_seq (rev (snd g)) # fst g, []) stack AtStart cs
      else if c \<in> set ''*+?'' then
        (case p of
           AfterAtom \<Rightarrow>
             (case snd g of
                [] \<Rightarrow> Malformed
              | t # ts \<Rightarrow> parse_go (fst g, quantify c t # ts) stack AfterQuantifier cs)
         | AfterQuantifier \<Rightarrow> if c = CHR ''?'' then parse_go g stack AfterLazy cs else Malformed
         | AfterOpen \<Rightarrow> if c = CHR ''?'' then Beyond else Malformed
         | _ \<Rightarrow> Malformed)
      else if c = CHR ''.'' then parse_go (fst g, Dot # snd g) stack AfterAtom cs
      else if c \<in> set ''^$[]{}'' \<or> c = CHR 0x5C \<or> digit7 c then Beyond
      else parse_go (fst g, Chr c # snd g) stack AfterAtom cs)"

definition parse_pattern :: "string \<Rightarrow> parsed" where
  "parse_pattern pattern = parse_go ([], []) [] AtStart pattern"

definition RegExp_i :: "string \<Rightarrow> js_error + (string \<Rightarrow> bool)" where
  "RegExp_i pattern =
     (case parse_pattern pattern of
        Parsed r \<Rightarrow> Inr (RegExp_test r)
      | Malformed \<Rightarrow> Inl SyntaxError
      | Beyond \<Rightarrow> Inl Unmodelled)"

subsection \<open>search-schema (index.mjs 224-252)\<close>

definition search_schema :: "(string \<Rightarrow> js_error + (string \<Rightarrow> bool)) \<Rightarrow> 'a schema \<Rightarrow> handler" where
  "search_schema RegExp schema = (\<lambda>pattern.
     case RegExp pattern of
       Inl thrown \<Rightarrow> Inl thrown
     | Inr searchRegex \<Rightarrow>
         (let matchingTypes =
                filter (\<lambda>type. \<not> startsWith type ''__'' \<and> searchRegex type)
                  (map fst (getTypeMap schema));
              text = ''Matching types: '' @ js_or (join '', '' matchingTypes) ''None'';
              matchingFields =
                concat (map (\<lambda>(typeName, type).
                              if has_getFields type
                              then map (\<lambda>fieldName. typeName @ ''.'' @ fieldName)
                                     (filter searchRegex (map fst (getFields type)))
                              else [])
                          (filter (\<lambda>(typeName, type). \<not> startsWith typeName ''__'')
                             (getTypeMap schema)))
          in Inr (text @ ''\<newline>Matching fields: '' @ js_or (join '', '' matchingFields) ''None'')))"

section \<open>Start-up (index.mjs 11-168, 254-255)\<close>

text \<open>
  \<open>schema.getQueryType()?.getFields()\<close>: undefined when the schema has no such root type,
  and a \<open>TypeError\<close> when the root type is of a class without the method.
\<close>

definition root_fields :: "'a gql_type option \<Rightarrow> js_error + (string \<times> 'a gql_field) list option" where
  "root_fields root =
     (case root of
        None \<Rightarrow> Inr None
      | Some type \<Rightarrow> if has_getFields type then Inr (Some (getFields type)) else Inl TypeError)"

text \<open>
  The registry after all calls of \<open>server.tool\<close>, in their order. An object is truthy, so
  \<open>if (queryFields)\<close> asks only whether the root type is there.
\<close>

definition register_tools ::
  "('a \<Rightarrow> string) \<Rightarrow> (string \<Rightarrow> js_error + (string \<Rightarrow> bool)) \<Rightarrow> 'a schema
   \<Rightarrow> js_error + (string \<times> handler) list" where
  "register_tools print RegExp schema =
     (case root_fields (getQueryType schema) of
        Inl thrown \<Rightarrow> Inl thrown
      | Inr queryFields \<Rightarrow>
     (case root_fields (getMutationType schema) of
        Inl thrown \<Rightarrow> Inl thrown
      | Inr mutationFields \<Rightarrow>
     (case root_fields (getSubscriptionType schema) of
        Inl thrown \<Rightarrow> Inl thrown
      | Inr subscriptionFields \<Rightarrow>
          Inr ((case queryFields of
                  None \<Rightarrow> []
                | Some fs \<Rightarrow> [(''list-query-fields'', list_root_fields fs),
                              (''get-query-field'', get_root_field print fs)])
               @ (case mutationFields of
                    None \<Rightarrow> []
                  | Some fs \<Rightarrow> [(''list-mutation-fields'', list_root_fields fs),
                                (''get-mutation-field'', get_root_field print fs)])
               @ (case subscriptionFields of
                    None \<Rightarrow> []
                  | Some fs \<Rightarrow> [(''list-subscription-fields'', list_root_fields fs),
                                (''get-subscription-field'', get_root_field print fs)])
               @ [(''list-types'', list_types schema),
                  (''get-type'', get_type print schema),
                  (''get-type-fields'', get_type_fields schema),
                  (''search-schema'', search_schema RegExp schema)]))))"

text \<open>
  \<open>loadSchema\<close>, with the file system (\<open>resolve\<close>, \<open>readFile\<close>, where \<open>None\<close> is a rejected
  read) and the parser of graphql-js (\<open>buildSchema\<close>, where \<open>Inl\<close> carries the message of the
  error it throws) as parameters. The result is what was written with \<open>console.error\<close>, and
  the schema or the status of \<open>process.exit\<close>.
\<close>

definition loadSchema ::
  "(string \<Rightarrow> string) \<Rightarrow> (string \<Rightarrow> string option) \<Rightarrow> (string \<Rightarrow> string + 'a schema)
   \<Rightarrow> string option \<Rightarrow> string list \<times> (nat + 'a schema)" where
  "loadSchema resolve readFile buildSchema schemaArg =
     (let schemaPath = resolve (case schemaArg of None \<Rightarrow> ''schema.graphqls'' | Some a \<Rightarrow> a)
      in case readFile schemaPath of
           None \<Rightarrow>
             ([''Error: Schema file not found at '' @ schemaPath,
               ''Usage: node index.mjs [path/to/schema.graphqls]''], Inl 1)
         | Some schemaContent \<Rightarrow>
             (case buildSchema schemaContent of
                Inl message \<Rightarrow> ([''Error loading schema: '' @ message], Inl 1)
              | Inr schema \<Rightarrow> ([], Inr schema)))"

definition help_text :: string where
  "help_text = ''\<newline>GraphQL Schema Model Context Protocol Server\<newline>\<newline>Usage: \<newline>  node index.mjs [path/to/schema.graphqls]\<newline>\<newline>Arguments:\<newline>  path/to/schema.graphqls  Path to the GraphQL schema file (optional)\<newline>                           If not provided, defaults to schema.graphqls\<newline>\<newline>Examples:\<newline>  node index.mjs # Uses default schema.graphqls\<newline>  node index.mjs ../schema.shopify.2025-01.graphqls # Uses Shopify schema\<newline>  node index.mjs /absolute/path/to/custom-schema.graphqls\<newline>  ''"

text \<open>
  The process after the module has run: what it wrote to the error stream (the global
  console is one on \<open>process.stderr\<close>, so \<open>console.log\<close> writes there too), the tools the
  server holds, and whether it is connected to its transport and serving requests, has
  exited with a status, or has died of an exception nobody caught.
\<close>

datatype status = Serving | Exited nat | Uncaught js_error

record process =
  stderr :: "string list"
  tools :: "(string \<times> handler) list"
  status :: status

definition main ::
  "(string \<Rightarrow> string) \<Rightarrow> (string \<Rightarrow> string option) \<Rightarrow> (string \<Rightarrow> string + 'a schema)
   \<Rightarrow> ('a \<Rightarrow> string) \<Rightarrow> (string \<Rightarrow> js_error + (string \<Rightarrow> bool)) \<Rightarrow> string list \<Rightarrow> process" where
  "main resolve readFile buildSchema print RegExp args =
     (if ''--help'' \<in> set args \<or> ''-h'' \<in> set args
      then \<lparr>stderr = [help_text], tools = [], status = Exited 0\<rparr>
      else
        (case loadSchema resolve readFile buildSchema (case args of [] \<Rightarrow> None | a # _ \<Rightarrow> Some a) of
           (written, Inl code) \<Rightarrow> \<lparr>stderr = written, tools = [], status = Exited code\<rparr>
         | (written, Inr schema) \<Rightarrow>
             (case register_tools print RegExp schema of
                Inl thrown \<Rightarrow> \<lparr>stderr = written, tools = [], status = Uncaught thrown\<rparr>
              | Inr registry \<Rightarrow> \<lparr>stderr = written, tools = registry, status = Serving\<rparr>)))"

text \<open>A request for a tool: the handler registered under the name, applied to the argument.\<close>

definition call_tool :: "process \<Rightarrow> string \<Rightarrow> string \<Rightarrow> (js_error + string) option" where
  "call_tool proc name arg =
     (case status proc of
        Serving \<Rightarrow> map_option (\<lambda>h. h arg) (map_of (tools proc) name)
      | _ \<Rightarrow> None)"

section \<open>Notions of the specification\<close>

text \<open>
  A name of the GraphQL grammar: a letter or underscore, then letters, digits and
  underscores. The lexer of graphql-js gives no other name to a type or a field.
\<close>

definition name_chars :: string where
  "name_chars = ''_ABCDEFGHIJKLMNOPQRSTUVWXYZabcdefghijklmnopqrstuvwxyz0123456789''"

definition valid_name :: "string \<Rightarrow> bool" where
  "valid_name n = (n \<noteq> [] \<and> hd n \<notin> set ''0123456789'' \<and> list_all (\<lambda>c. c \<in> set name_chars) n)"

fun valid_ref :: "type_ref \<Rightarrow> bool" where
  "valid_ref (Named n) = valid_name n"
| "valid_ref (ListOf t) = valid_ref t"
| "valid_ref (NonNull t) = valid_ref t"

definition valid_fields :: "(string \<times> 'a gql_field) list \<Rightarrow> bool" where
  "valid_fields fs = list_all (\<lambda>(fieldName, field). valid_name fieldName \<and> valid_ref (ftype field)) fs"

definition valid_type_names :: "'a schema \<Rightarrow> bool" where
  "valid_type_names schema = list_all valid_name (map fst (getTypeMap schema))"

text \<open>
  Splitting a text at a separator, as \<open>String.prototype.split\<close> does for a separator that
  is not empty. The lines of a text are its pieces between line feeds; the empty text has
  no line.
\<close>

fun js_split :: "string \<Rightarrow> string \<Rightarrow> string list" where
  "js_split sep [] = [[]]"
| "js_split sep (c # cs) =
     (if sep \<noteq> [] \<and> startsWith (c # cs) sep
      then [] # js_split sep (drop (length sep) (c # cs))
      else (case js_split sep cs of [] \<Rightarrow> [[c]] | x # xs \<Rightarrow> (c # x) # xs))"

definition text_lines :: "string \<Rightarrow> string list" where
  "text_lines text = (if text = [] then [] else js_split ''\<newline>'' text)"

text \<open>A line of \<open>get-type-fields\<close>: the field name and the rendering of its type.\<close>

definition field_line :: "string \<times> 'a gql_field \<Rightarrow> string" where
  "field_line = (\<lambda>(fieldName, field). fieldName @ '': '' @ toString (ftype field))"

text \<open>
  The names of the schema: of all its types, and of the fields of the types that bear
  fields. Then the names that are not internal, and the fields of their types.
\<close>

definition type_names :: "'a schema \<Rightarrow> string list" where
  "type_names schema = map fst (getTypeMap schema)"

definition field_names :: "'a schema \<Rightarrow> string list" where
  "field_names schema =
     concat (map (\<lambda>(typeName, type). if has_getFields type then map fst (getFields type) else [])
               (getTypeMap schema))"

definition internal :: "string \<Rightarrow> bool" where
  "internal n = startsWith n ''__''"

definition non_internal_type_names :: "'a schema \<Rightarrow> string list" where
  "non_internal_type_names schema = [n \<leftarrow> map fst (getTypeMap schema). \<not> internal n]"

definition non_internal_fields :: "'a schema \<Rightarrow> string list" where
  "non_internal_fields schema =
     concat (map (\<lambda>(typeName, type). map (\<lambda>fieldName. typeName @ ''.'' @ fieldName) (map fst (getFields type)))
               [(typeName, type) \<leftarrow> getTypeMap schema. \<not> internal typeName \<and> has_getFields type])"

section \<open>A small schema to evaluate the handlers on\<close>

text \<open>
  A schema of the shape graphql-js builds from
  \<^verbatim>\<open>type Query { user(id: ID!): User  users: [User!]! }  type User { id: ID!  name: String }\<close>:
  the declared types, the built-in scalars they bring in and, of the introspection types,
  \<open>__Type\<close> and \<open>__TypeKind\<close>, with their descriptions shortened. A syntax node is
  represented by the text the printer gives for it; built-in types have no syntax node.
\<close>

definition demo_Query :: "string gql_type" where
  "demo_Query = \<lparr>tclass = GraphQLObjectType, description = None,
     astNode = Some ''type Query {\<newline>  user(id: ID!): User\<newline>  users: [User!]!\<newline>}'',
     getFields = [(''user'', \<lparr>ftype = Named ''User'', fastNode = Some ''user(id: ID!): User''\<rparr>),
               (''users'', \<lparr>ftype = NonNull (ListOf (NonNull (Named ''User''))),
                           fastNode = Some ''users: [User!]!''\<rparr>)]\<rparr>"

definition demo_User :: "string gql_type" where
  "demo_User = \<lparr>tclass = GraphQLObjectType, description = None,
     astNode = Some ''type User {\<newline>  id: ID!\<newline>  name: String\<newline>}'',
     getFields = [(''id'', \<lparr>ftype = NonNull (Named ''ID''), fastNode = Some ''id: ID!''\<rparr>),
               (''name'', \<lparr>ftype = Named ''String'', fastNode = Some ''name: String''\<rparr>)]\<rparr>"

definition demo_scalar :: "string \<Rightarrow> string gql_type" where
  "demo_scalar d = \<lparr>tclass = GraphQLScalarType, description = Some d, astNode = None, getFields = []\<rparr>"

definition demo_TypeKind :: "string gql_type" where
  "demo_TypeKind = \<lparr>tclass = GraphQLEnumType,
     description = Some ''An enum describing what kind of type a given `__Type` is.'',
     astNode = None, getFields = []\<rparr>"

definition demo_Type :: "string gql_type" where
  "demo_Type = \<lparr>tclass = GraphQLObjectType,
     description = Some ''The fundamental unit of any GraphQL Schema is the type.\<newline>\<newline>Depending on the kind of a type, certain fields describe information about that type.'',
     astNode = None,
     getFields = [(''kind'', \<lparr>ftype = NonNull (Named ''__TypeKind''), fastNode = None\<rparr>),
                  (''name'', \<lparr>ftype = Named ''String'', fastNode = None\<rparr>)]\<rparr>"

definition demo_schema :: "string schema" where
  "demo_schema = \<lparr>getQueryType = Some demo_Query, getMutationType = None,
     getSubscriptionType = None,
     getTypeMap = [(''Query'', demo_Query), (''ID'', demo_scalar ''The `ID` scalar type.''),
                   (''User'', demo_User), (''String'', demo_scalar ''The `String` scalar type.''),
                   (''Boolean'', demo_scalar ''The `Boolean` scalar type.''),
                   (''__Type'', demo_Type), (''__TypeKind'', demo_TypeKind)]\<rparr>"

text \<open>
  The same schema with \<^verbatim>\<open>type Mutation\<close> added, a root type that is present and has
  no field.
\<close>

definition demo_Mutation :: "string gql_type" where
  "demo_Mutation = \<lparr>tclass = GraphQLObjectType, description = None,
     astNode = Some ''type Mutation'', getFields = []\<rparr>"

definition demo_schema_mutation :: "string schema" where
  "demo_schema_mutation = \<lparr>getQueryType = Some demo_Query, getMutationType = Some demo_Mutation,
     getSubscriptionType = None,
     getTypeMap = [(''Query'', demo_Query), (''ID'', demo_scalar ''The `ID` scalar type.''),
                   (''User'', demo_User), (''String'', demo_scalar ''The `String` scalar type.''),
                   (''Mutation'', demo_Mutation),
                   (''Boolean'', demo_scalar ''The `Boolean` scalar type.''),
                   (''__Type'', demo_Type), (''__TypeKind'', demo_TypeKind)]\<rparr>"

text \<open>
  The schema graphql-js builds from \<^verbatim>\<open>scalar Query\<close>: it takes the type named \<open>Query\<close>
  for the query root whatever its class, and leaves the check of the class to a validation
  that \<open>buildSchema\<close> does not run.
\<close>

definition demo_scalar_Query :: "string gql_type" where
  "demo_scalar_Query = \<lparr>tclass = GraphQLScalarType, description = None,
     astNode = Some ''scalar Query'', getFields = []\<rparr>"

definition demo_schema_scalar_root :: "string schema" where
  "demo_schema_scalar_root = \<lparr>getQueryType = Some demo_scalar_Query, getMutationType = None,
     getSubscriptionType = None,
     getTypeMap = [(''Query'', demo_scalar_Query),
                   (''String'', demo_scalar ''The `String` scalar type.''),
                   (''Boolean'', demo_scalar ''The `Boolean` scalar type.''),
                   (''__Type'', demo_Type), (''__TypeKind'', demo_TypeKind)]\<rparr>"

section \<open>Facts about the helpers\<close>

subsection \<open>Splitting what was joined\<close>

text \<open>
  A list of pieces none of which holds the first character of the separator is recovered
  from its join by splitting.
\<close>

lemma startsWith_Cons_differs: "sep \<noteq> [] \<Longrightarrow> hd sep \<noteq> c \<Longrightarrow> \<not> startsWith (c # cs) sep"
  by (cases sep) (auto simp: startsWith_def)

lemma startsWith_append_self: "startsWith (sep @ rest) sep"
  by (simp add: startsWith_def)

lemma js_split_nonempty: "js_split sep s \<noteq> []"
  by (induction sep s rule: js_split.induct) (auto split: list.splits)

lemma js_split_piece:
  assumes "sep \<noteq> []" and "hd sep \<notin> set x"
  shows "js_split sep x = [x]"
  using assms
proof (induction x)
  case Nil
  then show ?case by simp
next
  case (Cons c x)
  then show ?case by (simp add: startsWith_Cons_differs)
qed

lemma js_split_piece_sep:
  assumes "sep \<noteq> []" and "hd sep \<notin> set x"
  shows "js_split sep (x @ sep @ rest) = x # js_split sep rest"
  using assms
proof (induction x)
  case Nil
  obtain s ss where sep: "sep = s # ss" using Nil.prems(1) by (cases sep) auto
  have "js_split sep (sep @ rest) = [] # js_split sep (drop (length sep) (sep @ rest))"
    unfolding sep using startsWith_append_self [of "s # ss" rest] by simp
  then show ?case by simp
next
  case (Cons c x)
  then show ?case by (simp add: startsWith_Cons_differs)
qed

lemma js_split_join:
  assumes "sep \<noteq> []" and "xs \<noteq> []" and "\<forall>x \<in> set xs. hd sep \<notin> set x"
  shows "js_split sep (join sep xs) = xs"
  using assms
proof (induction sep xs rule: join.induct)
  case (1 sep)
  then show ?case by simp
next
  case (2 sep x)
  then show ?case by (simp add: js_split_piece)
next
  case (3 sep x y ys)
  then show ?case by (simp add: js_split_piece_sep)
qed

lemma join_not_Nil: "xs \<noteq> [] \<Longrightarrow> hd xs \<noteq> [] \<Longrightarrow> join sep xs \<noteq> []"
  by (induction sep xs rule: join.induct) auto

lemma text_lines_join:
  assumes "\<forall>l \<in> set ls. CHR ''\<newline>'' \<notin> set l \<and> l \<noteq> []"
  shows "text_lines (join ''\<newline>'' ls) = ls"
proof (cases "ls = []")
  case True
  then show ?thesis by (simp add: text_lines_def)
next
  case False
  then have "hd ls \<in> set ls" by simp
  with assms have "hd ls \<noteq> []" by blast
  with False have "join ''\<newline>'' ls \<noteq> []" by (rule join_not_Nil)
  moreover have "js_split ''\<newline>'' (join ''\<newline>'' ls) = ls"
    using False assms by (intro js_split_join) auto
  ultimately show ?thesis by (simp add: text_lines_def)
qed

lemma not_startsWith_Nil: "\<not> startsWith [] ''__''"
  by (simp add: startsWith_def)

subsection \<open>Names\<close>

lemma valid_name_chars: "valid_name n \<Longrightarrow> c \<notin> set name_chars \<Longrightarrow> c \<notin> set n"
  by (auto simp: valid_name_def list_all_iff)

lemma newline_not_name_char: "CHR ''\<newline>'' \<notin> set name_chars"
  by (simp add: name_chars_def)

lemma comma_not_name_char: "CHR '','' \<notin> set name_chars"
  by (simp add: name_chars_def)

lemma toString_no_newline: "valid_ref t \<Longrightarrow> CHR ''\<newline>'' \<notin> set (toString t)"
  by (induction t) (auto dest: valid_name_chars [OF _ newline_not_name_char])

lemma field_line_no_newline:
  assumes "valid_fields fs" and "l \<in> set (map field_line fs)"
  shows "CHR ''\<newline>'' \<notin> set l \<and> l \<noteq> []"
proof -
  from assms(2) obtain n f where nf: "(n, f) \<in> set fs" and l: "l = n @ '': '' @ toString (ftype f)"
    by (auto simp: field_line_def)
  from assms(1) nf have "valid_name n" and "valid_ref (ftype f)"
    by (auto simp: valid_fields_def list_all_iff)
  then show ?thesis
    using valid_name_chars [OF _ newline_not_name_char, of n] toString_no_newline [of "ftype f"]
    by (simp add: l)
qed

subsection \<open>The regular expressions of the fragment\<close>

text \<open>
  An expression that matches the empty string is found in every string, at index 0. The
  empty pattern and \<open>.*\<close> are such expressions; \<open>(\<close> does not parse.
\<close>

lemma nullable_match_here: "nullable r \<Longrightarrow> match_here r s"
  by (cases s) auto

lemma nullable_test: "nullable r \<Longrightarrow> RegExp_test r s"
  by (cases s) (auto simp: nullable_match_here)

lemma parse_empty: "parse_pattern [] = Parsed (Alt Eps Zero)"
  by (simp add: parse_pattern_def close_group_def mk_alt_def mk_seq_def)

lemma parse_dot_star: "parse_pattern ''.*'' = Parsed (Alt (Seq (Star Dot) Eps) Zero)"
  by (simp add: parse_pattern_def close_group_def mk_alt_def mk_seq_def quantify_def)

lemma parse_open: "parse_pattern ''('' = Malformed"
  by (simp add: parse_pattern_def)

lemma RegExp_i_empty: "\<exists>re. RegExp_i [] = Inr re \<and> (\<forall>s. re s)"
proof -
  have "\<forall>s. RegExp_test (Alt Eps Zero) s" by (simp add: nullable_test)
  then show ?thesis by (simp add: RegExp_i_def parse_empty)
qed

lemma RegExp_i_dot_star: "\<exists>re. RegExp_i ''.*'' = Inr re \<and> (\<forall>s. re s)"
proof -
  have "\<forall>s. RegExp_test (Alt (Seq (Star Dot) Eps) Zero) s" by (simp add: nullable_test)
  then show ?thesis by (simp add: RegExp_i_def parse_dot_star)
qed

subsection \<open>search-schema with an expression that matches everything, or nothing\<close>

lemma all_fields_concat:
  "concat (map (\<lambda>(typeName, type).
                  if has_getFields type
                  then map (\<lambda>fieldName. typeName @ ''.'' @ fieldName)
                         (filter (\<lambda>_. True) (map fst (getFields type)))
                  else [])
             (filter (\<lambda>(typeName, type). \<not> startsWith typeName ''__'') tm))
   = concat (map (\<lambda>(typeName, type). map (\<lambda>fieldName. typeName @ ''.'' @ fieldName) (map fst (getFields type)))
               [(typeName, type) \<leftarrow> tm. \<not> internal typeName \<and> has_getFields type])"
  by (induction tm) (simp_all add: internal_def split: prod.splits)

lemma search_schema_match_all:
  assumes "RegExp pattern = Inr re" and "\<forall>s. re s"
  shows "search_schema RegExp schema pattern =
         Inr (''Matching types: '' @ js_or (join '', '' (non_internal_type_names schema)) ''None''
              @ ''\<newline>Matching fields: '' @ js_or (join '', '' (non_internal_fields schema)) ''None'')"
proof -
  from assms(2) have re: "re = (\<lambda>_. True)" by auto
  have types: "filter (\<lambda>type. \<not> startsWith type ''__'' \<and> re type) (map fst (getTypeMap schema))
               = non_internal_type_names schema"
    by (simp add: re non_internal_type_names_def internal_def)
  show ?thesis
    unfolding search_schema_def Let_def assms(1) sum.case types
    unfolding re all_fields_concat non_internal_fields_def by simp
qed

lemma no_fields_concat:
  assumes "\<forall>n \<in> set (concat (map (\<lambda>(typeName, type). if has_getFields type then map fst (getFields type) else []) tm)). \<not> re n"
  shows "concat (map (\<lambda>(typeName, type).
                  if has_getFields type
                  then map (\<lambda>fieldName. typeName @ ''.'' @ fieldName) (filter re (map fst (getFields type)))
                  else [])
             (filter (\<lambda>(typeName, type). \<not> startsWith typeName ''__'') tm)) = []"
  using assms
proof (induction tm)
  case Nil
  then show ?case by simp
next
  case (Cons a tm)
  obtain typeName type where a: "a = (typeName, type)" by (cases a)
  from Cons.prems have here: "has_getFields type \<Longrightarrow> filter re (map fst (getFields type)) = []"
    and rest: "\<forall>n \<in> set (concat (map (\<lambda>(typeName, type). if has_getFields type then map fst (getFields type) else []) tm)). \<not> re n"
    by (auto simp: a filter_empty_conv)
  from Cons.IH [OF rest] here show ?case
    by (simp add: a)
qed

subsection \<open>The registry\<close>

lemma register_tools_Inr:
  assumes "register_tools print RegExp schema = Inr registry"
  shows "\<exists>q m s. root_fields (getQueryType schema) = Inr q
           \<and> root_fields (getMutationType schema) = Inr m
           \<and> root_fields (getSubscriptionType schema) = Inr s
           \<and> registry =
               (case q of None \<Rightarrow> []
                | Some fs \<Rightarrow> [(''list-query-fields'', list_root_fields fs),
                              (''get-query-field'', get_root_field print fs)])
               @ (case m of None \<Rightarrow> []
                  | Some fs \<Rightarrow> [(''list-mutation-fields'', list_root_fields fs),
                                (''get-mutation-field'', get_root_field print fs)])
               @ (case s of None \<Rightarrow> []
                  | Some fs \<Rightarrow> [(''list-subscription-fields'', list_root_fields fs),
                                (''get-subscription-field'', get_root_field print fs)])
               @ [(''list-types'', list_types schema),
                  (''get-type'', get_type print schema),
                  (''get-type-fields'', get_type_fields schema),
                  (''search-schema'', search_schema RegExp schema)]"
  using assms unfolding register_tools_def by (auto split: sum.splits)

lemma register_tools_succeeds:
  assumes "\<forall>type \<in> set_option (getQueryType schema) \<union> set_option (getMutationType schema)
             \<union> set_option (getSubscriptionType schema). has_getFields type"
  shows "\<exists>registry. register_tools print RegExp schema = Inr registry"
  using assms by (auto simp: register_tools_def root_fields_def split: option.splits)

lemma root_fields_Inr:
  "root_fields root = Inr fs \<Longrightarrow> (fs = None \<longleftrightarrow> root = None) \<and> (\<forall>type. root = Some type \<longrightarrow> fs = Some (getFields type))"
  by (auto simp: root_fields_def split: option.splits if_splits)

lemma registered_get_field:
  assumes "register_tools print RegExp schema = Inr registry"
    and "(tool, Some root) \<in> set [(''get-query-field'', getQueryType schema),
                                    (''get-mutation-field'', getMutationType schema),
                                    (''get-subscription-field'', getSubscriptionType schema)]"
  shows "map_of registry tool = Some (get_root_field print (getFields root))"
proof -
  from register_tools_Inr [OF assms(1)] obtain q m s where
    q: "root_fields (getQueryType schema) = Inr q" and
    m: "root_fields (getMutationType schema) = Inr m" and
    s: "root_fields (getSubscriptionType schema) = Inr s" and
    reg: "registry =
               (case q of None \<Rightarrow> []
                | Some fs \<Rightarrow> [(''list-query-fields'', list_root_fields fs),
                              (''get-query-field'', get_root_field print fs)])
               @ (case m of None \<Rightarrow> []
                  | Some fs \<Rightarrow> [(''list-mutation-fields'', list_root_fields fs),
                                (''get-mutation-field'', get_root_field print fs)])
               @ (case s of None \<Rightarrow> []
                  | Some fs \<Rightarrow> [(''list-subscription-fields'', list_root_fields fs),
                                (''get-subscription-field'', get_root_field print fs)])
               @ [(''list-types'', list_types schema),
                  (''get-type'', get_type print schema),
                  (''get-type-fields'', get_type_fields schema),
                  (''search-schema'', search_schema RegExp schema)]"
    by blast
  from assms(2) consider
      (query) "tool = ''get-query-field''" "getQueryType schema = Some root"
    | (mutation) "tool = ''get-mutation-field''" "getMutationType schema = Some root"
    | (subscription) "tool = ''get-subscription-field''" "getSubscriptionType schema = Some root"
    by auto
  then show ?thesis
  proof cases
    case query
    with root_fields_Inr [OF q] have "q = Some (getFields root)" by simp
    then show ?thesis by (simp add: reg query(1))
  next
    case mutation
    with root_fields_Inr [OF m] have "m = Some (getFields root)" by simp
    then show ?thesis by (cases q) (simp_all add: reg mutation(1))
  next
    case subscription
    with root_fields_Inr [OF s] have "s = Some (getFields root)" by simp
    then show ?thesis by (cases q; cases m) (simp_all add: reg subscription(1))
  qed
qed

lemma registry_names:
  assumes "register_tools print RegExp schema = Inr registry"
  shows "(''list-query-fields'' \<in> set (map fst registry) \<longleftrightarrow> getQueryType schema \<noteq> None)
       \<and> (''get-query-field'' \<in> set (map fst registry) \<longleftrightarrow> getQueryType schema \<noteq> None)
       \<and> (''list-mutation-fields'' \<in> set (map fst registry) \<longleftrightarrow> getMutationType schema \<noteq> None)
       \<and> (''get-mutation-field'' \<in> set (map fst registry) \<longleftrightarrow> getMutationType schema \<noteq> None)
       \<and> (''list-subscription-fields'' \<in> set (map fst registry) \<longleftrightarrow> getSubscriptionType schema \<noteq> None)
       \<and> (''get-subscription-field'' \<in> set (map fst registry) \<longleftrightarrow> getSubscriptionType schema \<noteq> None)"
proof -
  from register_tools_Inr [OF assms] obtain q m s where
    q: "root_fields (getQueryType schema) = Inr q" and
    m: "root_fields (getMutationType schema) = Inr m" and
    s: "root_fields (getSubscriptionType schema) = Inr s" and
    reg: "map fst registry =
            (case q of None \<Rightarrow> [] | Some fs \<Rightarrow> [''list-query-fields'', ''get-query-field''])
            @ (case m of None \<Rightarrow> [] | Some fs \<Rightarrow> [''list-mutation-fields'', ''get-mutation-field''])
            @ (case s of None \<Rightarrow> [] | Some fs \<Rightarrow> [''list-subscription-fields'', ''get-subscription-field''])
            @ [''list-types'', ''get-type'', ''get-type-fields'', ''search-schema'']"
    by (auto split: option.splits)
  have q': "q = None \<longleftrightarrow> getQueryType schema = None" using root_fields_Inr [OF q] by simp
  have m': "m = None \<longleftrightarrow> getMutationType schema = None" using root_fields_Inr [OF m] by simp
  have s': "s = None \<longleftrightarrow> getSubscriptionType schema = None" using root_fields_Inr [OF s] by simp
  show ?thesis
    unfolding reg q' [symmetric] m' [symmetric] s' [symmetric]
    by (cases q; cases m; cases s; simp)
qed

lemma demo_register:
  "\<exists>registry. register_tools id RegExp_i demo_schema_mutation = Inr registry"
  by (simp add: register_tools_def root_fields_def has_getFields_def demo_schema_mutation_def
      demo_Query_def demo_Mutation_def)

section \<open>search-schema\<close>

text \<open>
  C1, as amended. When the pattern compiles and the expression matches no type name and
  no field name of the schema, the text of \<open>search-schema\<close> is \<open>None\<close> on both lines.
  The empty pattern is not of that kind, see below.
\<close>

theorem search_no_match:
  assumes "RegExp pattern = Inr searchRegex"
    and "\<forall>n \<in> set (type_names schema @ field_names schema). \<not> searchRegex n"
  shows "search_schema RegExp schema pattern = Inr ''Matching types: None\<newline>Matching fields: None''"
proof -
  from assms(2) have types: "filter (\<lambda>type. \<not> startsWith type ''__'' \<and> searchRegex type) (map fst (getTypeMap schema)) = []"
    by (auto simp: type_names_def filter_empty_conv)
  from assms(2) have "\<forall>n \<in> set (field_names schema). \<not> searchRegex n"
    by simp
  then have flds: "concat (map (\<lambda>(typeName, type).
                  if has_getFields type
                  then map (\<lambda>fieldName. typeName @ ''.'' @ fieldName) (filter searchRegex (map fst (getFields type)))
                  else [])
             (filter (\<lambda>(typeName, type). \<not> startsWith typeName ''__'') (getTypeMap schema))) = []"
    unfolding field_names_def by (rule no_fields_concat)
  show ?thesis
    unfolding search_schema_def Let_def assms(1) sum.case types flds by (simp add: js_or_def)
qed

text \<open>
  The pattern \<open>zzz\<close> on the small schema.
\<close>

theorem search_no_match_witness:
  "RegExp_i ''zzz'' = Inr (RegExp_test (Alt (Seq (Chr CHR ''z'') (Seq (Chr CHR ''z'') (Seq (Chr CHR ''z'') Eps))) Zero))
   \<and> list_all (\<lambda>n. \<not> RegExp_test (Alt (Seq (Chr CHR ''z'') (Seq (Chr CHR ''z'') (Seq (Chr CHR ''z'') Eps))) Zero) n)
         (type_names demo_schema @ field_names demo_schema)
   \<and> search_schema RegExp_i demo_schema ''zzz'' = Inr ''Matching types: None\<newline>Matching fields: None''"
proof -
  let ?r = "Alt (Seq (Chr CHR ''z'') (Seq (Chr CHR ''z'') (Seq (Chr CHR ''z'') Eps))) Zero"
  have h1: "RegExp_i ''zzz'' = Inr (RegExp_test ?r)"
    by (simp add: RegExp_i_def parse_pattern_def close_group_def mk_alt_def mk_seq_def)
  have h2: "\<forall>n \<in> set (type_names demo_schema @ field_names demo_schema). \<not> RegExp_test ?r n"
    by code_simp
  from search_no_match [where RegExp = RegExp_i and pattern = "''zzz''" and schema = demo_schema
      and searchRegex = "RegExp_test ?r", OF h1 h2] h1 h2
  show ?thesis unfolding list_all_iff by blast
qed

text \<open>
  C1 as it was stated also promises \<open>None\<close> on both lines for the empty pattern. The
  empty pattern compiles to an expression that matches every string, so the handler lists
  every name that is not internal.
\<close>

theorem search_empty_pattern_counterexample:
  "search_schema RegExp_i demo_schema [] =
     Inr ''Matching types: Query, ID, User, String, Boolean\<newline>Matching fields: Query.user, Query.users, User.id, User.name''
   \<and> search_schema RegExp_i demo_schema [] \<noteq> Inr ''Matching types: None\<newline>Matching fields: None''"
  by code_simp

text \<open>
  C2. With the pattern \<open>.*\<close> the first line of \<open>search-schema\<close> joins every type name
  that does not start with \<open>__\<close>, and the second line every \<open>TypeName.fieldName\<close> of the
  types that do not start with \<open>__\<close> and bear fields, both in the order of the schema. A
  line without any entry reads \<open>None\<close>.
\<close>

theorem search_all:
  "search_schema RegExp_i schema ''.*'' =
     Inr (''Matching types: '' @ js_or (join '', '' (non_internal_type_names schema)) ''None''
          @ ''\<newline>Matching fields: '' @ js_or (join '', '' (non_internal_fields schema)) ''None'')
   \<and> set (non_internal_type_names schema) = {n \<in> fst ` set (getTypeMap schema). \<not> startsWith n ''__''}
   \<and> set (non_internal_fields schema) =
       {typeName @ ''.'' @ fieldName | typeName type fieldName.
          (typeName, type) \<in> set (getTypeMap schema) \<and> \<not> startsWith typeName ''__''
          \<and> has_getFields type \<and> fieldName \<in> fst ` set (getFields type)}"
proof (intro conjI)
  from RegExp_i_dot_star obtain re where "RegExp_i ''.*'' = Inr re" and "\<forall>s. re s" by blast
  then show "search_schema RegExp_i schema ''.*'' =
     Inr (''Matching types: '' @ js_or (join '', '' (non_internal_type_names schema)) ''None''
          @ ''\<newline>Matching fields: '' @ js_or (join '', '' (non_internal_fields schema)) ''None'')"
    by (rule search_schema_match_all)
next
  show "set (non_internal_type_names schema) = {n \<in> fst ` set (getTypeMap schema). \<not> startsWith n ''__''}"
    by (auto simp: non_internal_type_names_def internal_def)
next
  show "set (non_internal_fields schema) =
       {typeName @ ''.'' @ fieldName | typeName type fieldName.
          (typeName, type) \<in> set (getTypeMap schema) \<and> \<not> startsWith typeName ''__''
          \<and> has_getFields type \<and> fieldName \<in> fst ` set (getFields type)}"
    unfolding non_internal_fields_def internal_def by (auto simp: image_iff)
qed

theorem search_all_witness:
  "search_schema RegExp_i demo_schema ''.*'' =
     Inr ''Matching types: Query, ID, User, String, Boolean\<newline>Matching fields: Query.user, Query.users, User.id, User.name''"
  using search_all [of demo_schema]
  by (simp add: non_internal_type_names_def non_internal_fields_def internal_def startsWith_def
      js_or_def has_getFields_def demo_schema_def demo_Query_def demo_User_def demo_scalar_def
      demo_TypeKind_def)

text \<open>
  C10. \<open>search-schema\<close> throws on the pattern \<open>(\<close>: the handler gives the pattern to
  the constructor as it comes and throws exactly what the constructor throws. The lookup
  handlers return a text for every string.
\<close>

theorem search_schema_throws:
  "search_schema RegExp_i schema ''('' = Inl SyntaxError
   \<and> (search_schema RegExp schema pattern = Inl thrown \<longleftrightarrow> RegExp pattern = Inl thrown)
   \<and> (\<exists>text. get_type print schema name = Inr text)
   \<and> (\<exists>text. get_type_fields schema name = Inr text)
   \<and> (\<exists>text. get_root_field print rootFields name = Inr text)"
  by (auto simp: search_schema_def RegExp_i_def parse_open get_type_def get_type_fields_def
      get_root_field_def Let_def split: sum.splits)

theorem search_schema_throws_witness:
  \<open>search_schema RegExp_i demo_schema ''('' = Inl SyntaxError
   \<and> get_type id demo_schema ''('' = Inr ''Type "(" not found''\<close>
proof -
  have "''('' \<notin> set (map fst (getTypeMap demo_schema))"
    by (simp add: demo_schema_def)
  then have "map_of (getTypeMap demo_schema) ''('' = None"
    by (simp add: map_of_eq_None_iff)
  then have \<open>get_type id demo_schema ''('' = Inr ''Type "(" not found''\<close>
    by (simp add: get_type_def)
  with search_schema_throws [of demo_schema] show ?thesis
    by blast
qed

section \<open>Lookups of types\<close>

text \<open>
  C3. For a type name that is no key of the type map, \<open>get-type\<close> and \<open>get-type-fields\<close>
  both return, and do not throw, the text \<open>Type "<name>" not found\<close>, which contains the
  name that was asked for.
\<close>

theorem unknown_type_not_found:
  assumes "typeName \<notin> set (map fst (getTypeMap schema))"
  shows \<open>get_type print schema typeName = Inr (''Type "'' @ typeName @ ''" not found'')
       \<and> get_type_fields schema typeName = Inr (''Type "'' @ typeName @ ''" not found'')\<close>
proof -
  from assms have "map_of (getTypeMap schema) typeName = None"
    by (simp add: map_of_eq_None_iff)
  then show ?thesis
    by (simp add: get_type_def get_type_fields_def)
qed

theorem unknown_type_not_found_witness:
  \<open>''Account'' \<notin> set (map fst (getTypeMap demo_schema))
   \<and> get_type id demo_schema ''Account'' = Inr ''Type "Account" not found''
   \<and> get_type_fields demo_schema ''Account'' = Inr ''Type "Account" not found''\<close>
proof -
  have h: "''Account'' \<notin> set (map fst (getTypeMap demo_schema))"
    by (simp add: demo_schema_def)
  show ?thesis
    using h unknown_type_not_found [OF h, of id] by simp
qed

text \<open>
  C4. For a type of the schema that bears fields, the lines of the text of
  \<open>get-type-fields\<close> are the lines \<open>fieldName: signature\<close> of its fields, in the order of
  declaration, so there are as many lines as fields. The names are names of the GraphQL
  grammar, and a type declared without any field gives the empty text, which has no line.
\<close>

theorem type_fields_lines:
  assumes "map_of (getTypeMap schema) typeName = Some type"
    and "has_getFields type"
    and "valid_fields (getFields type)"
  shows "\<exists>text. get_type_fields schema typeName = Inr text
           \<and> text_lines text = map (\<lambda>(fieldName, field). fieldName @ '': '' @ toString (ftype field)) (getFields type)
           \<and> length (text_lines text) = length (getFields type)"
proof -
  let ?ls = "map field_line (getFields type)"
  have res: "get_type_fields schema typeName = Inr (join ''\<newline>'' ?ls)"
    using assms(1,2) by (simp add: get_type_fields_def field_line_def)
  have "text_lines (join ''\<newline>'' ?ls) = ?ls"
    using field_line_no_newline [OF assms(3)] by (intro text_lines_join) blast
  with res show ?thesis by (simp add: field_line_def)
qed

theorem type_fields_lines_witness:
  "map_of (getTypeMap demo_schema) ''User'' = Some demo_User \<and> has_getFields demo_User
   \<and> valid_fields (getFields demo_User)
   \<and> get_type_fields demo_schema ''User'' = Inr ''id: ID!\<newline>name: String''
   \<and> text_lines ''id: ID!\<newline>name: String'' = [''id: ID!'', ''name: String'']
   \<and> length (getFields demo_User) = 2"
proof -
  have h1: "map_of (getTypeMap demo_schema) ''User'' = Some demo_User"
    by (simp add: demo_schema_def)
  have h2: "has_getFields demo_User"
    by (simp add: has_getFields_def demo_User_def)
  have h3: "valid_fields (getFields demo_User)"
    by (simp add: valid_fields_def valid_name_def name_chars_def demo_User_def)
  have "get_type_fields demo_schema ''User'' = Inr ''id: ID!\<newline>name: String''"
    by (simp add: get_type_fields_def h1 h2) (simp add: demo_User_def)
  with type_fields_lines [OF h1 h2 h3] h1 h2 h3 show ?thesis
    by (auto simp: demo_User_def)
qed

text \<open>
  C7. \<open>list-types\<close> returns the names of the types that do not start with \<open>__\<close>, joined
  by a comma and a space, whatever its argument; and, the names being names of the GraphQL
  grammar, no piece of the text between two separators starts with \<open>__\<close>.
\<close>

theorem list_types_non_internal:
  "list_types schema arg = Inr (join '', '' (non_internal_type_names schema))
   \<and> set (non_internal_type_names schema) = {n \<in> set (map fst (getTypeMap schema)). \<not> startsWith n ''__''}
   \<and> (valid_type_names schema \<longrightarrow>
        (\<forall>n \<in> set (js_split '', '' (join '', '' (non_internal_type_names schema))). \<not> startsWith n ''__''))"
proof (intro conjI impI)
  show "list_types schema arg = Inr (join '', '' (non_internal_type_names schema))"
    by (simp add: list_types_def non_internal_type_names_def internal_def)
next
  show "set (non_internal_type_names schema) = {n \<in> set (map fst (getTypeMap schema)). \<not> startsWith n ''__''}"
    by (auto simp: non_internal_type_names_def internal_def)
next
  assume valid: "valid_type_names schema"
  let ?names = "non_internal_type_names schema"
  show "\<forall>n \<in> set (js_split '', '' (join '', '' ?names)). \<not> startsWith n ''__''"
  proof (cases "?names = []")
    case True
    then show ?thesis by (simp add: not_startsWith_Nil)
  next
    case False
    have "\<forall>n \<in> set ?names. hd '', '' \<notin> set n"
      using valid valid_name_chars [OF _ comma_not_name_char]
      by (auto simp: valid_type_names_def non_internal_type_names_def list_all_iff)
    with False have "js_split '', '' (join '', '' ?names) = ?names"
      by (intro js_split_join) simp_all
    then show ?thesis
      by (simp add: non_internal_type_names_def internal_def)
  qed
qed

theorem list_types_non_internal_witness:
  "valid_type_names demo_schema
   \<and> list_types demo_schema [] = Inr ''Query, ID, User, String, Boolean''
   \<and> list_all (\<lambda>n. \<not> startsWith n ''__'') (js_split '', '' ''Query, ID, User, String, Boolean'')"
proof -
  have v: "valid_type_names demo_schema"
    by (simp add: valid_type_names_def valid_name_def name_chars_def demo_schema_def)
  have n: "join '', '' (non_internal_type_names demo_schema) = ''Query, ID, User, String, Boolean''"
    by (simp add: non_internal_type_names_def internal_def startsWith_def demo_schema_def)
  from list_types_non_internal [of demo_schema "[]"] v
  have "list_types demo_schema [] = Inr (join '', '' (non_internal_type_names demo_schema))
        \<and> (\<forall>n \<in> set (js_split '', '' (join '', '' (non_internal_type_names demo_schema))). \<not> startsWith n ''__'')"
    by blast
  then show ?thesis
    unfolding n list_all_iff using v by blast
qed

text \<open>
  C8, as amended. For a type of the schema, \<open>get-type\<close> returns the printed syntax node
  when the type has one. Otherwise it returns \<open>Type: <name>\<close>, \<open>Description: \<close> with the
  description or \<open>No description\<close>, and \<open>Kind: <class name>\<close>, separated by line feeds;
  these are three lines when the description holds no line feed.
\<close>

theorem get_type_present:
  assumes "map_of (getTypeMap schema) typeName = Some type"
  shows "(\<forall>node. astNode type = Some node \<longrightarrow> get_type print schema typeName = Inr (print node))
       \<and> (astNode type = None \<longrightarrow>
            get_type print schema typeName =
              Inr (''Type: '' @ typeName @ ''\<newline>Description: ''
                   @ (case description type of None \<Rightarrow> ''No description'' | Some d \<Rightarrow> d)
                   @ ''\<newline>Kind: '' @ class_name (tclass type))
            \<and> (CHR ''\<newline>'' \<notin> set typeName
                 \<and> CHR ''\<newline>'' \<notin> set (case description type of None \<Rightarrow> ''No description'' | Some d \<Rightarrow> d)
                \<longrightarrow> (\<exists>text. get_type print schema typeName = Inr text
                      \<and> text_lines text =
                          [''Type: '' @ typeName,
                           ''Description: '' @ (case description type of None \<Rightarrow> ''No description'' | Some d \<Rightarrow> d),
                           ''Kind: '' @ class_name (tclass type)])))"
proof (intro conjI allI impI)
  fix node assume "astNode type = Some node"
  with assms show "get_type print schema typeName = Inr (print node)"
    by (simp add: get_type_def)
next
  assume "astNode type = None"
  with assms show "get_type print schema typeName =
              Inr (''Type: '' @ typeName @ ''\<newline>Description: ''
                   @ (case description type of None \<Rightarrow> ''No description'' | Some d \<Rightarrow> d)
                   @ ''\<newline>Kind: '' @ class_name (tclass type))"
    by (simp add: get_type_def)
next
  let ?d = "case description type of None \<Rightarrow> ''No description'' | Some d \<Rightarrow> d"
  let ?ls = "[''Type: '' @ typeName, ''Description: '' @ ?d, ''Kind: '' @ class_name (tclass type)]"
  assume none: "astNode type = None"
    and nl: "CHR ''\<newline>'' \<notin> set typeName \<and> CHR ''\<newline>'' \<notin> set ?d"
  have kind: "CHR ''\<newline>'' \<notin> set (class_name (tclass type))"
    by (cases "tclass type") simp_all
  from assms none have "get_type print schema typeName = Inr (join ''\<newline>'' ?ls)"
    by (simp add: get_type_def)
  moreover have "text_lines (join ''\<newline>'' ?ls) = ?ls"
    using nl kind by (intro text_lines_join) auto
  ultimately show "\<exists>text. get_type print schema typeName = Inr text \<and> text_lines text = ?ls"
    by blast
qed

theorem get_type_present_witness:
  "map_of (getTypeMap demo_schema) ''User'' = Some demo_User
   \<and> get_type id demo_schema ''User'' = Inr ''type User {\<newline>  id: ID!\<newline>  name: String\<newline>}''
   \<and> map_of (getTypeMap demo_schema) ''ID'' = Some (demo_scalar ''The `ID` scalar type.'')
   \<and> (\<exists>text. get_type id demo_schema ''ID'' = Inr text
        \<and> text_lines text = [''Type: ID'', ''Description: The `ID` scalar type.'', ''Kind: GraphQLScalarType''])"
proof -
  have user: "map_of (getTypeMap demo_schema) ''User'' = Some demo_User"
    and id: "map_of (getTypeMap demo_schema) ''ID'' = Some (demo_scalar ''The `ID` scalar type.'')"
    by (simp_all add: demo_schema_def)
  from get_type_present [OF user, of id]
  have "get_type id demo_schema ''User'' = Inr ''type User {\<newline>  id: ID!\<newline>  name: String\<newline>}''"
    by (simp add: demo_User_def)
  moreover from get_type_present [OF id, of id]
  have "\<exists>text. get_type id demo_schema ''ID'' = Inr text
        \<and> text_lines text = [''Type: ID'', ''Description: The `ID` scalar type.'', ''Kind: GraphQLScalarType'']"
    by (auto simp: demo_scalar_def)
  ultimately show ?thesis using user id by blast
qed

text \<open>
  C8 as it was stated promises three lines for every type without a syntax node. The
  description goes into the text as it is: for \<open>__Type\<close>, whose description has an empty
  line in it, the text has five lines.
\<close>

theorem get_type_three_lines_counterexample:
  "map_of (getTypeMap demo_schema) ''__Type'' = Some demo_Type \<and> astNode demo_Type = None
   \<and> get_type id demo_schema ''__Type'' =
       Inr ''Type: __Type\<newline>Description: The fundamental unit of any GraphQL Schema is the type.\<newline>\<newline>Depending on the kind of a type, certain fields describe information about that type.\<newline>Kind: GraphQLObjectType''
   \<and> length (text_lines ''Type: __Type\<newline>Description: The fundamental unit of any GraphQL Schema is the type.\<newline>\<newline>Depending on the kind of a type, certain fields describe information about that type.\<newline>Kind: GraphQLObjectType'') = 5"
  by code_simp

section \<open>Root operation fields and their tools\<close>

text \<open>
  C5. The handler registered as \<open>get-query-field\<close>, \<open>get-mutation-field\<close> or
  \<open>get-subscription-field\<close> returns, for a field name of its root type whose field has a
  syntax node, the printed node; for a field without a syntax node and for a name that is
  no field of the root type it returns \<open>Field not found or has no definition\<close>. It
  throws in none of the cases.
\<close>

theorem root_field_lookup:
  assumes "register_tools print RegExp schema = Inr registry"
    and "(tool, Some root) \<in> set [(''get-query-field'', getQueryType schema),
                                    (''get-mutation-field'', getMutationType schema),
                                    (''get-subscription-field'', getSubscriptionType schema)]"
  shows "\<exists>h. map_of registry tool = Some h
           \<and> (\<forall>field node. map_of (getFields root) fieldName = Some field \<longrightarrow> fastNode field = Some node
                 \<longrightarrow> h fieldName = Inr (print node))
           \<and> (\<forall>field. map_of (getFields root) fieldName = Some field \<longrightarrow> fastNode field = None
                 \<longrightarrow> h fieldName = Inr ''Field not found or has no definition'')
           \<and> (map_of (getFields root) fieldName = None
                 \<longrightarrow> h fieldName = Inr ''Field not found or has no definition'')"
  using registered_get_field [OF assms] by (simp add: get_root_field_def)

theorem root_field_lookup_witness:
  "\<exists>registry h. register_tools id RegExp_i demo_schema_mutation = Inr registry
     \<and> map_of registry ''get-query-field'' = Some h
     \<and> h ''user'' = Inr ''user(id: ID!): User''
     \<and> h ''missing'' = Inr ''Field not found or has no definition''"
proof -
  from demo_register obtain registry
    where reg: "register_tools id RegExp_i demo_schema_mutation = Inr registry" ..
  have root: "(''get-query-field'', Some demo_Query)
        \<in> set [(''get-query-field'', getQueryType demo_schema_mutation),
                (''get-mutation-field'', getMutationType demo_schema_mutation),
                (''get-subscription-field'', getSubscriptionType demo_schema_mutation)]"
    by (simp add: demo_schema_mutation_def)
  have user: "map_of (getFields demo_Query) ''user''
                = Some \<lparr>ftype = Named ''User'', fastNode = Some ''user(id: ID!): User''\<rparr>"
    and missing: "map_of (getFields demo_Query) ''missing'' = None"
    by (simp_all add: demo_Query_def)
  from root_field_lookup [OF reg root, of "''user''"] obtain h where
    h: "map_of registry ''get-query-field'' = Some h" and
    "h ''user'' = Inr ''user(id: ID!): User''"
    using user by auto
  moreover from root_field_lookup [OF reg root, of "''missing''"] h missing
  have "h ''missing'' = Inr ''Field not found or has no definition''"
    by auto
  ultimately show ?thesis using reg by blast
qed

text \<open>
  C6, as amended. For a schema whose root types, where it has them, are of a class with
  \<open>getFields\<close> (the object types graphql-js declares them to be), the module builds its
  registry, and the two tools of a root operation are in it exactly when the schema has
  that root type, whether or not the root type has a field.
\<close>

theorem tool_pairs_registered:
  assumes "\<forall>type \<in> set_option (getQueryType schema) \<union> set_option (getMutationType schema)
             \<union> set_option (getSubscriptionType schema). has_getFields type"
  shows "\<exists>registry. register_tools print RegExp schema = Inr registry
       \<and> (''list-query-fields'' \<in> set (map fst registry) \<longleftrightarrow> getQueryType schema \<noteq> None)
       \<and> (''get-query-field'' \<in> set (map fst registry) \<longleftrightarrow> getQueryType schema \<noteq> None)
       \<and> (''list-mutation-fields'' \<in> set (map fst registry) \<longleftrightarrow> getMutationType schema \<noteq> None)
       \<and> (''get-mutation-field'' \<in> set (map fst registry) \<longleftrightarrow> getMutationType schema \<noteq> None)
       \<and> (''list-subscription-fields'' \<in> set (map fst registry) \<longleftrightarrow> getSubscriptionType schema \<noteq> None)
       \<and> (''get-subscription-field'' \<in> set (map fst registry) \<longleftrightarrow> getSubscriptionType schema \<noteq> None)"
proof -
  from register_tools_succeeds [OF assms] obtain registry
    where reg: "register_tools print RegExp schema = Inr registry" ..
  from registry_names [OF reg] reg show ?thesis by blast
qed

text \<open>
  A schema with an empty \<open>Mutation\<close> type and without a subscription type.
\<close>

theorem tool_pairs_registered_witness:
  "has_getFields demo_Query \<and> has_getFields demo_Mutation
   \<and> getQueryType demo_schema_mutation = Some demo_Query
   \<and> getMutationType demo_schema_mutation = Some demo_Mutation \<and> getFields demo_Mutation = []
   \<and> getSubscriptionType demo_schema_mutation = None
   \<and> (\<exists>registry. register_tools id RegExp_i demo_schema_mutation = Inr registry
        \<and> ''list-query-fields'' \<in> set (map fst registry)
        \<and> ''get-query-field'' \<in> set (map fst registry)
        \<and> ''list-mutation-fields'' \<in> set (map fst registry)
        \<and> ''get-mutation-field'' \<in> set (map fst registry)
        \<and> ''list-subscription-fields'' \<notin> set (map fst registry)
        \<and> ''get-subscription-field'' \<notin> set (map fst registry))"
proof -
  have roots: "getQueryType demo_schema_mutation = Some demo_Query"
    "getMutationType demo_schema_mutation = Some demo_Mutation"
    "getSubscriptionType demo_schema_mutation = None"
    by (simp_all add: demo_schema_mutation_def)
  have has: "has_getFields demo_Query" "has_getFields demo_Mutation"
    by (simp_all add: has_getFields_def demo_Query_def demo_Mutation_def)
  have empty: "getFields demo_Mutation = []"
    by (simp add: demo_Mutation_def)
  have h: "\<forall>type \<in> set_option (getQueryType demo_schema_mutation)
             \<union> set_option (getMutationType demo_schema_mutation)
             \<union> set_option (getSubscriptionType demo_schema_mutation). has_getFields type"
    by (simp add: roots has)
  from tool_pairs_registered [OF h, of id RegExp_i] roots has empty show ?thesis
    by simp
qed

text \<open>
  C6 as it was stated holds of every schema that was loaded. For the schema of
  \<^verbatim>\<open>scalar Query\<close> the query root is present, but a scalar type has no \<open>getFields\<close>:
  line 67 throws a \<open>TypeError\<close> that nobody catches, so the process dies with no tool
  registered, the two tools of the query root among them.
\<close>

theorem scalar_root_counterexample:
  "getQueryType demo_schema_scalar_root = Some demo_scalar_Query
   \<and> register_tools id RegExp_i demo_schema_scalar_root = Inl TypeError
   \<and> main (\<lambda>p. ''/srv/'' @ p) (\<lambda>p. Some ''scalar Query'') (\<lambda>t. Inr demo_schema_scalar_root)
        id RegExp_i [] = \<lparr>stderr = [], tools = [], status = Uncaught TypeError\<rparr>
   \<and> ''list-query-fields'' \<notin> set (map fst (tools (main (\<lambda>p. ''/srv/'' @ p)
        (\<lambda>p. Some ''scalar Query'') (\<lambda>t. Inr demo_schema_scalar_root) id RegExp_i [])))
   \<and> ''get-query-field'' \<notin> set (map fst (tools (main (\<lambda>p. ''/srv/'' @ p)
        (\<lambda>p. Some ''scalar Query'') (\<lambda>t. Inr demo_schema_scalar_root) id RegExp_i [])))"
proof -
  have reg: "register_tools id RegExp_i demo_schema_scalar_root = Inl TypeError"
    by (simp add: register_tools_def root_fields_def has_getFields_def
        demo_schema_scalar_root_def demo_scalar_Query_def)
  have run: "main (\<lambda>p. ''/srv/'' @ p) (\<lambda>p. Some ''scalar Query'') (\<lambda>t. Inr demo_schema_scalar_root)
        id RegExp_i [] = \<lparr>stderr = [], tools = [], status = Uncaught TypeError\<rparr>"
    by (simp add: main_def loadSchema_def reg)
  have root: "getQueryType demo_schema_scalar_root = Some demo_scalar_Query"
    by (simp add: demo_schema_scalar_root_def)
  show ?thesis
    unfolding run using reg root by simp
qed

section \<open>Start-up with a schema file that cannot be read\<close>

text \<open>
  C9. When the help flag is not given, so that the schema file is read, and the read of
  the resolved path fails, the process writes \<open>Error: Schema file not found at\<close> with
  the resolved path and the usage line to the error stream and exits with status 1; no
  tool is registered and no request is answered.
\<close>

theorem unreadable_schema_file:
  assumes "''--help'' \<notin> set args" and "''-h'' \<notin> set args"
    and "schemaPath = resolve (case args of [] \<Rightarrow> ''schema.graphqls'' | a # _ \<Rightarrow> a)"
    and "readFile schemaPath = None"
  shows "main resolve readFile buildSchema print RegExp args =
           \<lparr>stderr = [''Error: Schema file not found at '' @ schemaPath,
                      ''Usage: node index.mjs [path/to/schema.graphqls]''],
            tools = [], status = Exited 1\<rparr>
         \<and> call_tool (main resolve readFile buildSchema print RegExp args) name arg = None"
  using assms by (cases args) (simp_all add: main_def loadSchema_def call_tool_def)

theorem unreadable_schema_file_witness:
  "''--help'' \<notin> set [''nowhere.graphqls''] \<and> ''-h'' \<notin> set [''nowhere.graphqls'']
   \<and> main (\<lambda>p. ''/srv/'' @ p) (\<lambda>p. None) (\<lambda>t. Inr demo_schema) id RegExp_i [''nowhere.graphqls''] =
        \<lparr>stderr = [''Error: Schema file not found at /srv/nowhere.graphqls'',
                   ''Usage: node index.mjs [path/to/schema.graphqls]''],
         tools = [], status = Exited 1\<rparr>
   \<and> call_tool (main (\<lambda>p. ''/srv/'' @ p) (\<lambda>p. None) (\<lambda>t. Inr demo_schema) id RegExp_i [''nowhere.graphqls''])
        ''list-types'' [] = None"
proof -
  have h1: "''--help'' \<notin> set [''nowhere.graphqls'']" and h2: "''-h'' \<notin> set [''nowhere.graphqls'']"
    by simp_all
  have h3: "''/srv/nowhere.graphqls'' = (\<lambda>p. ''/srv/'' @ p) (case [''nowhere.graphqls''] of [] \<Rightarrow> ''schema.graphqls'' | a # _ \<Rightarrow> a)"
    by simp
  have h4: "(\<lambda>p::string. None :: string option) ''/srv/nowhere.graphqls'' = None"
    by simp
  from unreadable_schema_file [where args = "[''nowhere.graphqls'']" and resolve = "\<lambda>p. ''/srv/'' @ p"
      and readFile = "\<lambda>p. None" and schemaPath = "''/srv/nowhere.graphqls''"
      and buildSchema = "\<lambda>t. Inr demo_schema" and print = id and RegExp = RegExp_i
      and name = "''list-types''" and arg = "[]", OF h1 h2 h3 h4] h1 h2
  show ?thesis by (simp add: call_tool_def)
qed

end
